theory Spec2Isabelle
  imports Main "HOL-Library.Sublist"
begin

section \<open>The signalling channel of \<^verbatim>\<open>WebSocketHandler\<close>\<close>

text \<open>
  A shallow embedding of the class \<^verbatim>\<open>WebSocketHandler\<close>: its private fields are the first
  fields of the record \<open>world\<close>; its methods and the four callbacks it installs on a
  transport take the world and return the world after the call, together with the
  exception that left the call, if any. The browser objects the class drives (the
  sockets it has created, the pending timers) are the remaining fields of the record, and
  every call the class makes to the platform or to a callback it was given is appended to
  the field \<open>trace\<close>, so that "what a call did" is the part of the trace the call added.
  Calls to the console are left out, and so is the address computed by
  \<^verbatim>\<open>getWebSocketUrl\<close>, which nothing below depends on.
\<close>

subsection \<open>Values of the platform\<close>

text \<open>
  What \<^verbatim>\<open>JSON.parse\<close> can return. An object is the list of its own properties; a number
  is only ever tested for being zero.
\<close>

datatype json =
    JNull
  | JBool bool
  | JNum int
  | JStr string
  | JArr "json list"
  | JObj "(string \<times> json) list"

text \<open>
  The \<^verbatim>\<open>Error\<close> values that travel through the class: the ones it builds itself and the
  ones thrown at it by the platform or by a registered handler.
\<close>

datatype js_error =
    SyntaxError              \<comment> \<open>thrown by \<^verbatim>\<open>JSON.parse\<close>\<close>
  | TypeError                \<comment> \<open>a property read from \<^verbatim>\<open>null\<close>, or \<^verbatim>\<open>JSON.stringify\<close> on a cycle\<close>
  | SetupError               \<comment> \<open>thrown by \<^verbatim>\<open>new WebSocket(url)\<close>\<close>
  | ServerError json         \<comment> \<open>\<^verbatim>\<open>new Error(message.error)\<close>\<close>
  | ConnectionError          \<comment> \<open>\<^verbatim>\<open>new Error("WebSocket connection error")\<close>\<close>
  | ReconnectExhausted       \<comment> \<open>\<^verbatim>\<open>new Error("Failed to establish WebSocket connection after maximum attempts")\<close>\<close>
  | Thrown string            \<comment> \<open>whatever a registered handler throws\<close>

text \<open>The text of an inbound frame, by what \<^verbatim>\<open>JSON.parse\<close> makes of it.\<close>

datatype frame = NotJSON string | JSONText json

fun JSON_parse :: "frame \<Rightarrow> js_error + json" where
  "JSON_parse (NotJSON s) = Inl SyntaxError"
| "JSON_parse (JSONText j) = Inr j"

text \<open>
  The argument of \<^verbatim>\<open>send(message: any)\<close>, by what \<^verbatim>\<open>JSON.stringify\<close> makes of it: a value
  it serialises, or one on which it throws (a cyclic object, a BigInt). A transmitted frame
  is recorded as the value whose text was sent.
\<close>

datatype payload = Serializable json | Unserializable

fun JSON_stringify :: "payload \<Rightarrow> js_error + json" where
  "JSON_stringify (Serializable j) = Inr j"
| "JSON_stringify Unserializable = Inl TypeError"

text \<open>
  Reading a property \<^verbatim>\<open>message.k\<close>: a \<^verbatim>\<open>TypeError\<close> on \<^verbatim>\<open>null\<close>, the property of an object
  if it has one, \<^verbatim>\<open>undefined\<close> (\<open>None\<close>) otherwise. The class reads \<^verbatim>\<open>error\<close> and
  \<^verbatim>\<open>type\<close> only, which no boolean, number, string or array has.
\<close>

fun get_prop :: "json \<Rightarrow> string \<Rightarrow> js_error + json option" where
  "get_prop JNull k = Inl TypeError"
| "get_prop (JObj kvs) k = Inr (map_of kvs k)"
| "get_prop j k = Inr None"

text \<open>The truthiness test of \<^verbatim>\<open>if (v)\<close>.\<close>

fun truthy :: "json option \<Rightarrow> bool" where
  "truthy None = False"
| "truthy (Some JNull) = False"
| "truthy (Some (JBool b)) = b"
| "truthy (Some (JNum n)) = (n \<noteq> 0)"
| "truthy (Some (JStr s)) = (s \<noteq> [])"
| "truthy (Some (JArr xs)) = True"
| "truthy (Some (JObj kvs)) = True"

text \<open>
  A registered handler is a function of the consumer: it has an identity and, called with a
  payload, returns (\<open>None\<close>) or throws. Handlers are taken not to call back into the
  manager.
\<close>

datatype handler = Handler nat "json \<Rightarrow> js_error option"

datatype ready_state = CONNECTING | OPEN | CLOSING | CLOSED

text \<open>
  A transport created by \<^verbatim>\<open>connect\<close>: its \<^verbatim>\<open>readyState\<close>, and the handle of the
  establishment timeout that the callbacks installed on it have captured.
\<close>

record socket =
  readyState :: ready_state
  connectionTimeout :: nat

datatype timer_kind = ConnectionTimeout | Reconnect | Ping

datatype effect =
    SocketCreated nat                \<comment> \<open>\<^verbatim>\<open>new WebSocket(wsUrl)\<close>\<close>
  | TransportClose nat "nat option"  \<comment> \<open>\<^verbatim>\<open>ws.close()\<close>, \<^verbatim>\<open>ws.close(1000, ...)\<close>\<close>
  | Transmit nat json                \<comment> \<open>\<^verbatim>\<open>ws.send(JSON.stringify(message))\<close>\<close>
  | TimerSet nat timer_kind nat      \<comment> \<open>\<^verbatim>\<open>setTimeout\<close>, \<^verbatim>\<open>setInterval\<close>: handle, callback, delay\<close>
  | TimerCleared nat                 \<comment> \<open>\<^verbatim>\<open>clearTimeout\<close>, \<^verbatim>\<open>clearInterval\<close>\<close>
  | ErrorSink js_error               \<comment> \<open>\<^verbatim>\<open>onError(error)\<close>\<close>
  | Invoked nat json                 \<comment> \<open>\<^verbatim>\<open>handler(message)\<close>\<close>
  | Uncaught js_error                \<comment> \<open>an exception that leaves a callback\<close>

subsection \<open>The manager and its surroundings\<close>

text \<open>
  Timer handles are positive integers in a browser, so \<^verbatim>\<open>if (this.reconnectTimer)\<close> and
  \<^verbatim>\<open>if (this.pingInterval)\<close> test for \<^verbatim>\<open>null\<close>; the model numbers handles from 1 and never
  reuses one. \<open>onError\<close> says whether an error sink was supplied to the constructor.
\<close>

record world =
  ws :: "nat option"
  messageHandlers :: "string \<rightharpoonup> handler"
  isConnected :: bool
  reconnectTimer :: "nat option"
  maxRetries :: nat
  retryCount :: nat
  retryDelay :: nat
  pingInterval :: "nat option"
  roomId :: string
  onError :: bool
  sockets :: "nat \<rightharpoonup> socket"
  next_socket :: nat
  timers :: "(nat \<times> timer_kind \<times> nat) list"
  next_timer :: nat
  trace :: "effect list"

text \<open>The outcome of a block of statements: the exception that left it, if any, and the state.\<close>

type_synonym completion = "js_error option \<times> world"

definition normal :: "world \<Rightarrow> completion" where
  "normal w = (None, w)"

definition throw :: "js_error \<Rightarrow> world \<Rightarrow> completion" where
  "throw e w = (Some e, w)"

text \<open>\<^verbatim>\<open>try { body } catch (error) { handler }\<close>\<close>

definition try_catch :: "completion \<Rightarrow> (js_error \<Rightarrow> world \<Rightarrow> completion) \<Rightarrow> completion" where
  "try_catch c h = (case c of (None, w) \<Rightarrow> (None, w) | (Some e, w) \<Rightarrow> h e w)"

definition emit :: "effect \<Rightarrow> world \<Rightarrow> world" where
  "emit x w = w\<lparr>trace := trace w @ [x]\<rparr>"

text \<open>\<^verbatim>\<open>this.onError?.(error)\<close>\<close>

definition report :: "js_error \<Rightarrow> world \<Rightarrow> world" where
  "report e w = (if onError w then emit (ErrorSink e) w else w)"

text \<open>
  \<^verbatim>\<open>setTimeout(callback, delay)\<close> and \<^verbatim>\<open>setInterval(callback, delay)\<close>; the handle returned is
  \<open>next_timer\<close> of the state before.
\<close>

definition setTimer :: "timer_kind \<Rightarrow> nat \<Rightarrow> world \<Rightarrow> world" where
  "setTimer k d w =
     emit (TimerSet (next_timer w) k d)
       (w\<lparr>timers := timers w @ [(next_timer w, k, d)], next_timer := Suc (next_timer w)\<rparr>)"

text \<open>\<^verbatim>\<open>clearTimeout(handle)\<close> and \<^verbatim>\<open>clearInterval(handle)\<close>\<close>

definition clearTimer :: "nat \<Rightarrow> world \<Rightarrow> world" where
  "clearTimer t w =
     emit (TimerCleared t) (w\<lparr>timers := filter (\<lambda>x. fst x \<noteq> t) (timers w)\<rparr>)"

text \<open>\<^verbatim>\<open>socket.close(code?)\<close>: a transport not yet closing starts to close.\<close>

definition ws_close :: "nat \<Rightarrow> nat option \<Rightarrow> world \<Rightarrow> world" where
  "ws_close s code w =
     emit (TransportClose s code)
       (case sockets w s of
          None \<Rightarrow> w
        | Some k \<Rightarrow>
            if readyState k = CONNECTING \<or> readyState k = OPEN
            then w\<lparr>sockets := (sockets w)(s \<mapsto> k\<lparr>readyState := CLOSING\<rparr>)\<rparr>
            else w)"

text \<open>\<^verbatim>\<open>this.ws?.readyState === WebSocket.OPEN\<close>\<close>

definition ws_is_open :: "world \<Rightarrow> bool" where
  "ws_is_open w =
     (case ws w of
        None \<Rightarrow> False
      | Some s \<Rightarrow> (case sockets w s of None \<Rightarrow> False | Some k \<Rightarrow> readyState k = OPEN))"

subsection \<open>The methods of the class\<close>

definition handleReconnect :: "world \<Rightarrow> world" where
  "handleReconnect w =
     (let w1 = (case reconnectTimer w of Some t \<Rightarrow> clearTimer t w | None \<Rightarrow> w) in
      if retryCount w1 < maxRetries w1 then
        let w2 = w1\<lparr>retryCount := retryCount w1 + 1\<rparr>;
            w3 = (setTimer Reconnect (retryDelay w2) w2)\<lparr>reconnectTimer := Some (next_timer w2)\<rparr>
        in w3\<lparr>retryDelay := min (retryDelay w3 * 2) 10000\<rparr>
      else report ReconnectExhausted w1)"

definition send :: "payload \<Rightarrow> world \<Rightarrow> completion" where
  "send message w =
     (case ws w of
        None \<Rightarrow> normal (handleReconnect w)
      | Some s \<Rightarrow>
          if \<not> ws_is_open w then normal (handleReconnect w)
          else
            try_catch
              (case JSON_stringify message of
                 Inl e \<Rightarrow> throw e w
               | Inr messageStr \<Rightarrow> normal (emit (Transmit s messageStr) w))
              (\<lambda>error w'. normal (report error w')))"

definition ping_message :: json where
  "ping_message = JObj [(''type'', JStr ''ping'')]"

definition join_message :: "string \<Rightarrow> json" where
  "join_message r = JObj [(''type'', JStr ''join''), (''roomId'', JStr r)]"

definition setupPing :: "world \<Rightarrow> world" where
  "setupPing w =
     (let w1 = (case pingInterval w of Some t \<Rightarrow> clearTimer t w | None \<Rightarrow> w)
      in (setTimer Ping 30000 w1)\<lparr>pingInterval := Some (next_timer w1)\<rparr>)"

text \<open>The callback of the interval armed by \<^verbatim>\<open>setupPing\<close>.\<close>

definition ping_tick :: "world \<Rightarrow> completion" where
  "ping_tick w =
     (if ws_is_open w
      then try_catch (send (Serializable ping_message) w) (\<lambda>error w'. normal w')
      else normal w)"

text \<open>
  The body of the \<^verbatim>\<open>try\<close> of \<^verbatim>\<open>connect\<close>. \<open>ok\<close> says whether \<^verbatim>\<open>new WebSocket(wsUrl)\<close>
  returns a transport or throws; the four callbacks assigned to the new transport are
  \<open>ws_onopen\<close>, \<open>ws_onclose\<close>, \<open>ws_onerror\<close> and \<open>ws_onmessage\<close> below.
\<close>

definition connect_try :: "bool \<Rightarrow> world \<Rightarrow> completion" where
  "connect_try ok w =
     (if ws_is_open w then normal w
      else
        let w1 = (case ws w of Some s \<Rightarrow> (ws_close s None w)\<lparr>ws := None\<rparr> | None \<Rightarrow> w) in
        if \<not> ok then throw SetupError w1
        else
          let s = next_socket w1;
              w2 = (emit (SocketCreated s) w1)\<lparr>ws := Some s, next_socket := Suc s\<rparr>;
              w3 = setTimer ConnectionTimeout 5000 w2
          in normal (w3\<lparr>sockets := (sockets w3)(s \<mapsto>
                 \<lparr>readyState = CONNECTING, connectionTimeout = next_timer w2\<rparr>)\<rparr>))"

definition connect :: "bool \<Rightarrow> world \<Rightarrow> completion" where
  "connect ok w =
     try_catch (connect_try ok w) (\<lambda>error w'. normal (handleReconnect (report error w')))"

text \<open>The callback of the establishment timeout armed by \<^verbatim>\<open>connect\<close>.\<close>

definition connection_timeout :: "world \<Rightarrow> completion" where
  "connection_timeout w =
     (if \<not> ws_is_open w then
        normal (handleReconnect (case ws w of Some s \<Rightarrow> ws_close s None w | None \<Rightarrow> w))
      else normal w)"

text \<open>The callback of the timer armed by \<^verbatim>\<open>handleReconnect\<close>.\<close>

definition reconnect_fired :: "bool \<Rightarrow> world \<Rightarrow> completion" where
  "reconnect_fired ok w = connect ok (w\<lparr>reconnectTimer := None\<rparr>)"

text \<open>
  \<^verbatim>\<open>ws.onopen\<close>, \<^verbatim>\<open>ws.onclose\<close>, \<^verbatim>\<open>ws.onerror\<close> and \<^verbatim>\<open>ws.onmessage\<close>. The argument \<open>ct\<close> is
  the establishment timeout the callback has captured.
\<close>

definition ws_onopen :: "nat \<Rightarrow> world \<Rightarrow> completion" where
  "ws_onopen ct w =
     (let w1 = clearTimer ct w;
          w2 = w1\<lparr>isConnected := True, retryCount := 0, retryDelay := 1000\<rparr>;
          w3 = setupPing w2
      in send (Serializable (join_message (roomId w3))) w3)"

definition ws_onclose :: "nat \<Rightarrow> world \<Rightarrow> completion" where
  "ws_onclose ct w =
     (let w1 = clearTimer ct w;
          w2 = (case pingInterval w1 of
                  Some t \<Rightarrow> (clearTimer t w1)\<lparr>pingInterval := None\<rparr>
                | None \<Rightarrow> w1)
      in normal (handleReconnect (w2\<lparr>isConnected := False\<rparr>)))"

definition ws_onerror :: "world \<Rightarrow> completion" where
  "ws_onerror w = normal (report ConnectionError w)"

definition lookup_handler :: "world \<Rightarrow> json option \<Rightarrow> handler option" where
  "lookup_handler w tag = (case tag of Some (JStr t) \<Rightarrow> messageHandlers w t | _ \<Rightarrow> None)"

definition call_handler :: "handler \<Rightarrow> json \<Rightarrow> world \<Rightarrow> completion" where
  "call_handler h message w =
     (case h of Handler i f \<Rightarrow>
        (case f message of
           None \<Rightarrow> normal (emit (Invoked i message) w)
         | Some e \<Rightarrow> throw e (emit (Invoked i message) w)))"

definition onmessage_try :: "frame \<Rightarrow> world \<Rightarrow> completion" where
  "onmessage_try data w =
     (case JSON_parse data of
        Inl e \<Rightarrow> throw e w
      | Inr message \<Rightarrow>
          (case get_prop message ''error'' of
             Inl e \<Rightarrow> throw e w
           | Inr err \<Rightarrow>
               if truthy err then
                 normal (report (ServerError (case err of Some v \<Rightarrow> v | None \<Rightarrow> JNull)) w)
               else
                 (case get_prop message ''type'' of
                    Inl e \<Rightarrow> throw e w
                  | Inr tag \<Rightarrow>
                      (case lookup_handler w tag of
                         Some h \<Rightarrow> call_handler h message w
                       | None \<Rightarrow> normal w))))"

definition ws_onmessage :: "frame \<Rightarrow> world \<Rightarrow> completion" where
  "ws_onmessage data w =
     try_catch (onmessage_try data w) (\<lambda>error w'. normal (report error w'))"

definition onMessage :: "string \<Rightarrow> handler \<Rightarrow> world \<Rightarrow> completion" where
  "onMessage type handler w =
     normal (w\<lparr>messageHandlers := (messageHandlers w)(type \<mapsto> handler)\<rparr>)"

definition close :: "world \<Rightarrow> completion" where
  "close w =
     (let w1 = (case reconnectTimer w of
                  Some t \<Rightarrow> (clearTimer t w)\<lparr>reconnectTimer := None\<rparr>
                | None \<Rightarrow> w);
          w2 = (case pingInterval w1 of
                  Some t \<Rightarrow> (clearTimer t w1)\<lparr>pingInterval := None\<rparr>
                | None \<Rightarrow> w1);
          w3 = (case ws w2 of
                  Some s \<Rightarrow>
                    (let w2a = w2\<lparr>retryCount := maxRetries w2\<rparr>;
                         w2b = (if ws_is_open w2a then ws_close s (Some 1000) w2a else w2a)
                     in w2b\<lparr>ws := None\<rparr>)
                | None \<Rightarrow> w2)
      in normal (w3\<lparr>isConnected := False, messageHandlers := Map.empty\<rparr>))"

subsection \<open>Construction and the event loop\<close>

text \<open>The field initialisers of the class, with no transport and no timer yet.\<close>

definition initial :: "string \<Rightarrow> bool \<Rightarrow> world" where
  "initial r sink =
     \<lparr>ws = None, messageHandlers = Map.empty, isConnected = False, reconnectTimer = None,
      maxRetries = 3, retryCount = 0, retryDelay = 1000, pingInterval = None,
      roomId = r, onError = sink,
      sockets = Map.empty, next_socket = 0, timers = [], next_timer = 1, trace = []\<rparr>"

text \<open>An exception that leaves a callback or a method is recorded and the state is kept.\<close>

definition settle :: "completion \<Rightarrow> world" where
  "settle c = (case c of (None, w) \<Rightarrow> w | (Some e, w) \<Rightarrow> emit (Uncaught e) w)"

text \<open>\<^verbatim>\<open>new WebSocketHandler(roomId, onError)\<close>\<close>

definition construct :: "string \<Rightarrow> bool \<Rightarrow> bool \<Rightarrow> world" where
  "construct r sink ok = settle (connect ok (initial r sink))"

text \<open>
  What can happen to a manager: the transport \<open>s\<close> opens, starts its closing handshake,
  closes, reports an error or delivers a frame; the pending timer \<open>t\<close> fires (with the
  outcome of \<^verbatim>\<open>new WebSocket\<close> should its callback reach it); the consumer calls a public
  method. An event that cannot happen in the state (a transport that does not exist, a
  timer that is not pending) changes nothing.
\<close>

datatype event =
    SockOpen nat
  | SockClosing nat
  | SockClose nat
  | SockError nat
  | SockMessage nat frame
  | TimerFires nat bool
  | CallSend payload
  | CallOnMessage string handler
  | CallClose

definition set_readyState :: "nat \<Rightarrow> ready_state \<Rightarrow> world \<Rightarrow> world" where
  "set_readyState s r w =
     (case sockets w s of
        None \<Rightarrow> w
      | Some k \<Rightarrow> w\<lparr>sockets := (sockets w)(s \<mapsto> k\<lparr>readyState := r\<rparr>)\<rparr>)"

definition fire :: "nat \<Rightarrow> bool \<Rightarrow> world \<Rightarrow> completion" where
  "fire t ok w =
     (case map_of (timers w) t of
        None \<Rightarrow> normal w
      | Some (Ping, d) \<Rightarrow> ping_tick w
      | Some (ConnectionTimeout, d) \<Rightarrow>
          connection_timeout (w\<lparr>timers := filter (\<lambda>x. fst x \<noteq> t) (timers w)\<rparr>)
      | Some (Reconnect, d) \<Rightarrow>
          reconnect_fired ok (w\<lparr>timers := filter (\<lambda>x. fst x \<noteq> t) (timers w)\<rparr>))"

definition deliver :: "event \<Rightarrow> world \<Rightarrow> completion" where
  "deliver ev w =
     (case ev of
        SockOpen s \<Rightarrow>
          (case sockets w s of
             Some k \<Rightarrow>
               if readyState k = CONNECTING
               then ws_onopen (connectionTimeout k) (set_readyState s OPEN w)
               else normal w
           | None \<Rightarrow> normal w)
      | SockClosing s \<Rightarrow>
          (case sockets w s of
             Some k \<Rightarrow> normal (if readyState k = OPEN then set_readyState s CLOSING w else w)
           | None \<Rightarrow> normal w)
      | SockClose s \<Rightarrow>
          (case sockets w s of
             Some k \<Rightarrow>
               if readyState k \<noteq> CLOSED
               then ws_onclose (connectionTimeout k) (set_readyState s CLOSED w)
               else normal w
           | None \<Rightarrow> normal w)
      | SockError s \<Rightarrow>
          (case sockets w s of
             Some k \<Rightarrow> if readyState k \<noteq> CLOSED then ws_onerror w else normal w
           | None \<Rightarrow> normal w)
      | SockMessage s data \<Rightarrow>
          (case sockets w s of
             Some k \<Rightarrow>
               if readyState k = OPEN \<or> readyState k = CLOSING
               then ws_onmessage data w
               else normal w
           | None \<Rightarrow> normal w)
      | TimerFires t ok \<Rightarrow> fire t ok w
      | CallSend message \<Rightarrow> send message w
      | CallOnMessage type handler \<Rightarrow> onMessage type handler w
      | CallClose \<Rightarrow> close w)"

definition step :: "world \<Rightarrow> event \<Rightarrow> world" where
  "step w ev = settle (deliver ev w)"

definition run :: "world \<Rightarrow> event list \<Rightarrow> world" where
  "run w evs = foldl step w evs"

subsection \<open>Reading the trace\<close>

text \<open>The calls that a step from \<open>w\<close> to \<open>w'\<close> has added to the trace.\<close>

definition added :: "world \<Rightarrow> world \<Rightarrow> effect list" where
  "added w w' = drop (length (trace w)) (trace w')"

fun is_transmit :: "effect \<Rightarrow> bool" where
  "is_transmit (Transmit s j) = True"
| "is_transmit x = False"

fun is_invoked :: "effect \<Rightarrow> bool" where
  "is_invoked (Invoked i j) = True"
| "is_invoked x = False"

fun is_transport_close :: "effect \<Rightarrow> bool" where
  "is_transport_close (TransportClose s c) = True"
| "is_transport_close x = False"

text \<open>A call that arms a timer or opens a new transport.\<close>

fun arms :: "effect \<Rightarrow> bool" where
  "arms (TimerSet t k d) = True"
| "arms (SocketCreated s) = True"
| "arms x = False"

fun is_reconnect :: "nat \<times> timer_kind \<times> nat \<Rightarrow> bool" where
  "is_reconnect (t, k, d) = (k = Reconnect)"

text \<open>The close and the error event of a transport.\<close>

fun late_close_or_error :: "event \<Rightarrow> bool" where
  "late_close_or_error (SockClose s) = True"
| "late_close_or_error (SockError s) = True"
| "late_close_or_error ev = False"

text \<open>No reconnect timer is recorded and the attempts are used up.\<close>

definition retired :: "world \<Rightarrow> bool" where
  "retired w = (reconnectTimer w = None \<and> \<not> retryCount w < maxRetries w)"

text \<open>
  The bookkeeping of the timers: no handle is pending twice, every pending handle is older
  than the next one to be given out, and a pending reconnect timer is the one on record.
\<close>

definition timers_ok :: "world \<Rightarrow> bool" where
  "timers_ok w =
     (distinct (map fst (timers w))
      \<and> list_all (\<lambda>x. fst x < next_timer w) (timers w)
      \<and> list_all (\<lambda>x. is_reconnect x \<longrightarrow> reconnectTimer w = Some (fst x)) (timers w))"

text \<open>The \<^verbatim>\<open>readyState\<close> of the transport \<open>s\<close>, if there is such a transport.\<close>

definition readyState_of :: "world \<Rightarrow> nat \<Rightarrow> ready_state option" where
  "readyState_of w s = map_option readyState (sockets w s)"

text \<open>
  The manager was constructed for the room \<open>r\<close>, and a transport that is still connecting
  is the one the manager holds.
\<close>

definition current_only :: "string \<Rightarrow> world \<Rightarrow> bool" where
  "current_only r w =
     (roomId w = r \<and> (\<forall>s. readyState_of w s = Some CONNECTING \<longrightarrow> ws w = Some s))"


text \<open>The heartbeat interval on record is pending, with its period of 30000 ms.\<close>

definition beating :: "world \<Rightarrow> bool" where
  "beating w =
     (case pingInterval w of Some p \<Rightarrow> (p, Ping, 30000) \<in> set (timers w) | None \<Rightarrow> False)"

text \<open>
  The bookkeeping of the timers, and the handle on record for the reconnect timer is an
  old one that no pending timer of another kind has.
\<close>

definition handles_ok :: "world \<Rightarrow> bool" where
  "handles_ok w =
     (timers_ok w
      \<and> (case reconnectTimer w of
            Some t \<Rightarrow> t < next_timer w \<and> list_all (\<lambda>x. fst x = t \<longrightarrow> is_reconnect x) (timers w)
          | None \<Rightarrow> True))"

subsection \<open>Example managers\<close>

text \<open>
  A manager just constructed (its transport still connecting), one whose transport has
  opened, and one on which a handler for the tag \<^verbatim>\<open>chat\<close> is registered.
\<close>

definition fresh_manager :: world where
  "fresh_manager = construct ''room'' True True"

definition open_manager :: world where
  "open_manager = run fresh_manager [SockOpen 0]"

definition chat_handler :: handler where
  "chat_handler = Handler 7 (\<lambda>p. None)"

definition chat_manager :: world where
  "chat_manager = run fresh_manager [SockOpen 0, CallOnMessage ''chat'' chat_handler]"

section \<open>Properties\<close>

lemmas model_defs =
  normal_def throw_def try_catch_def emit_def report_def setTimer_def clearTimer_def
  ws_close_def ws_is_open_def handleReconnect_def send_def setupPing_def ping_tick_def
  connect_try_def connect_def connection_timeout_def reconnect_fired_def ws_onopen_def
  ws_onclose_def ws_onerror_def lookup_handler_def call_handler_def onmessage_try_def
  ws_onmessage_def onMessage_def close_def settle_def construct_def
  set_readyState_def fire_def deliver_def step_def initial_def run_def added_def
  ping_message_def join_message_def

lemmas sample_defs = fresh_manager_def open_manager_def chat_handler_def chat_manager_def

subsection \<open>The fields after a call to the platform\<close>

lemma emit_sel [simp]:
  "ws (emit x w) = ws w" "messageHandlers (emit x w) = messageHandlers w"
  "isConnected (emit x w) = isConnected w" "reconnectTimer (emit x w) = reconnectTimer w"
  "maxRetries (emit x w) = maxRetries w" "retryCount (emit x w) = retryCount w"
  "retryDelay (emit x w) = retryDelay w" "pingInterval (emit x w) = pingInterval w"
  "roomId (emit x w) = roomId w" "onError (emit x w) = onError w"
  "sockets (emit x w) = sockets w" "next_socket (emit x w) = next_socket w"
  "timers (emit x w) = timers w" "next_timer (emit x w) = next_timer w"
  "trace (emit x w) = trace w @ [x]"
  by (simp_all add: emit_def)

lemma report_sel [simp]:
  "ws (report e w) = ws w" "messageHandlers (report e w) = messageHandlers w"
  "isConnected (report e w) = isConnected w" "reconnectTimer (report e w) = reconnectTimer w"
  "maxRetries (report e w) = maxRetries w" "retryCount (report e w) = retryCount w"
  "retryDelay (report e w) = retryDelay w" "pingInterval (report e w) = pingInterval w"
  "roomId (report e w) = roomId w" "onError (report e w) = onError w"
  "sockets (report e w) = sockets w" "next_socket (report e w) = next_socket w"
  "timers (report e w) = timers w" "next_timer (report e w) = next_timer w"
  "trace (report e w) = trace w @ (if onError w then [ErrorSink e] else [])"
  by (simp_all add: report_def)

lemma clearTimer_sel [simp]:
  "ws (clearTimer t w) = ws w" "messageHandlers (clearTimer t w) = messageHandlers w"
  "isConnected (clearTimer t w) = isConnected w"
  "reconnectTimer (clearTimer t w) = reconnectTimer w"
  "maxRetries (clearTimer t w) = maxRetries w" "retryCount (clearTimer t w) = retryCount w"
  "retryDelay (clearTimer t w) = retryDelay w" "pingInterval (clearTimer t w) = pingInterval w"
  "roomId (clearTimer t w) = roomId w" "onError (clearTimer t w) = onError w"
  "sockets (clearTimer t w) = sockets w" "next_socket (clearTimer t w) = next_socket w"
  "timers (clearTimer t w) = filter (\<lambda>x. fst x \<noteq> t) (timers w)"
  "next_timer (clearTimer t w) = next_timer w"
  "trace (clearTimer t w) = trace w @ [TimerCleared t]"
  by (simp_all add: clearTimer_def)

lemma setTimer_sel [simp]:
  "ws (setTimer k d w) = ws w" "messageHandlers (setTimer k d w) = messageHandlers w"
  "isConnected (setTimer k d w) = isConnected w"
  "reconnectTimer (setTimer k d w) = reconnectTimer w"
  "maxRetries (setTimer k d w) = maxRetries w" "retryCount (setTimer k d w) = retryCount w"
  "retryDelay (setTimer k d w) = retryDelay w" "pingInterval (setTimer k d w) = pingInterval w"
  "roomId (setTimer k d w) = roomId w" "onError (setTimer k d w) = onError w"
  "sockets (setTimer k d w) = sockets w" "next_socket (setTimer k d w) = next_socket w"
  "timers (setTimer k d w) = timers w @ [(next_timer w, k, d)]"
  "next_timer (setTimer k d w) = Suc (next_timer w)"
  "trace (setTimer k d w) = trace w @ [TimerSet (next_timer w) k d]"
  by (simp_all add: setTimer_def)

lemma ws_close_sel [simp]:
  "ws (ws_close s c w) = ws w" "messageHandlers (ws_close s c w) = messageHandlers w"
  "isConnected (ws_close s c w) = isConnected w"
  "reconnectTimer (ws_close s c w) = reconnectTimer w"
  "maxRetries (ws_close s c w) = maxRetries w" "retryCount (ws_close s c w) = retryCount w"
  "retryDelay (ws_close s c w) = retryDelay w" "pingInterval (ws_close s c w) = pingInterval w"
  "roomId (ws_close s c w) = roomId w" "onError (ws_close s c w) = onError w"
  "next_socket (ws_close s c w) = next_socket w"
  "timers (ws_close s c w) = timers w" "next_timer (ws_close s c w) = next_timer w"
  "trace (ws_close s c w) = trace w @ [TransportClose s c]"
  by (simp_all add: ws_close_def split: option.splits)

lemma set_readyState_sel [simp]:
  "ws (set_readyState s r w) = ws w"
  "messageHandlers (set_readyState s r w) = messageHandlers w"
  "isConnected (set_readyState s r w) = isConnected w"
  "reconnectTimer (set_readyState s r w) = reconnectTimer w"
  "maxRetries (set_readyState s r w) = maxRetries w"
  "retryCount (set_readyState s r w) = retryCount w"
  "retryDelay (set_readyState s r w) = retryDelay w"
  "pingInterval (set_readyState s r w) = pingInterval w"
  "roomId (set_readyState s r w) = roomId w" "onError (set_readyState s r w) = onError w"
  "next_socket (set_readyState s r w) = next_socket w"
  "timers (set_readyState s r w) = timers w" "next_timer (set_readyState s r w) = next_timer w"
  "trace (set_readyState s r w) = trace w"
  by (simp_all add: set_readyState_def split: option.splits)

subsection \<open>Backoff\<close>

text \<open>
  The retry scheduler by itself. A manager is constructed (the transport is created,
  nothing has failed yet): the attempt count is 0, the next delay 1000 ms, the attempt
  limit 3. Four calls of the
  retry scheduler in a row then do this: the first three arm a reconnect timer, with
  delays 1000, 2000 and 4000 ms, each after cancelling the timer of the call before, and
  raise the attempt count to 1, 2 and 3; the fourth arms nothing, leaves no reconnect
  timer pending and hands the exhaustion error to the error sink (when one was supplied).
  The same is seen from outside when four transports in a row close before they open, each
  retry being started by its timer: the trace of the whole run is the one given.
\<close>

theorem backoff_growth:
  "(let w0 = construct r sink True;
        w1 = handleReconnect w0;
        w2 = handleReconnect w1;
        w3 = handleReconnect w2;
        w4 = handleReconnect w3
    in retryCount w0 = 0 \<and> retryDelay w0 = 1000 \<and> maxRetries w0 = 3
     \<and> added w0 w1 = [TimerSet 2 Reconnect 1000] \<and> retryCount w1 = 1
     \<and> added w1 w2 = [TimerCleared 2, TimerSet 3 Reconnect 2000] \<and> retryCount w2 = 2
     \<and> added w2 w3 = [TimerCleared 3, TimerSet 4 Reconnect 4000] \<and> retryCount w3 = 3
     \<and> added w3 w4 = TimerCleared 4 # (if sink then [ErrorSink ReconnectExhausted] else [])
     \<and> retryCount w4 = 3
     \<and> filter is_reconnect (timers w4) = [])
   \<and> trace (run (construct r sink True)
         [SockClose 0, TimerFires 2 True, SockClose 1, TimerFires 4 True,
          SockClose 2, TimerFires 6 True, SockClose 3]) =
       [SocketCreated 0, TimerSet 1 ConnectionTimeout 5000,
        TimerCleared 1, TimerSet 2 Reconnect 1000,
        TransportClose 0 None, SocketCreated 1, TimerSet 3 ConnectionTimeout 5000,
        TimerCleared 3, TimerSet 4 Reconnect 2000,
        TransportClose 1 None, SocketCreated 2, TimerSet 5 ConnectionTimeout 5000,
        TimerCleared 5, TimerSet 6 Reconnect 4000,
        TransportClose 2 None, SocketCreated 3, TimerSet 7 ConnectionTimeout 5000,
        TimerCleared 7] @ (if sink then [ErrorSink ReconnectExhausted] else [])"
  unfolding Let_def
  by (simp add: model_defs Let_def del: emit_sel report_sel clearTimer_sel setTimer_sel
      ws_close_sel set_readyState_sel)

text \<open>
  Claim C1 says that each of three failures in a row schedules one retry, after 1000, 2000
  and 4000 ms, and that the fourth exhausts the attempts. The code does so when a failure
  is a transport that closes before it opens, as shown above, but not when a failure is an
  establishment timeout. The callback of the timeout closes the transport and calls the
  retry scheduler, and the close event that follows calls it again: the first timeout arms
  1000 ms, cancels it and arms 2000 ms, leaving the attempt count at 2; the second timeout
  arms 4000 ms, cancels it and reports exhaustion, leaving no reconnect timer pending.
\<close>

theorem timeout_consumes_two_attempts:
  "map_option readyState (sockets fresh_manager 0) = Some CONNECTING
   \<and> timers fresh_manager = [(1, ConnectionTimeout, 5000)]
   \<and> added fresh_manager (run fresh_manager [TimerFires 1 True, SockClose 0])
       = [TransportClose 0 None, TimerSet 2 Reconnect 1000,
          TimerCleared 1, TimerCleared 2, TimerSet 3 Reconnect 2000]
   \<and> retryCount (run fresh_manager [TimerFires 1 True, SockClose 0]) = 2
   \<and> added (run fresh_manager [TimerFires 1 True, SockClose 0])
            (run fresh_manager [TimerFires 1 True, SockClose 0, TimerFires 3 True])
       = [TransportClose 0 None, SocketCreated 1, TimerSet 4 ConnectionTimeout 5000]
   \<and> added (run fresh_manager [TimerFires 1 True, SockClose 0, TimerFires 3 True])
            (run fresh_manager [TimerFires 1 True, SockClose 0, TimerFires 3 True,
                                TimerFires 4 True, SockClose 1])
       = [TransportClose 1 None, TimerSet 5 Reconnect 4000,
          TimerCleared 4, TimerCleared 5, ErrorSink ReconnectExhausted]
   \<and> retryCount (run fresh_manager [TimerFires 1 True, SockClose 0, TimerFires 3 True,
                                    TimerFires 4 True, SockClose 1]) = 3
   \<and> timers (run fresh_manager [TimerFires 1 True, SockClose 0, TimerFires 3 True,
                                 TimerFires 4 True, SockClose 1]) = []"
  by (simp add: sample_defs model_defs Let_def)

subsection \<open>Sending\<close>

lemma handleReconnect_transmits_nothing:
  "filter is_transmit (added w (handleReconnect w)) = []"
  by (simp add: handleReconnect_def added_def Let_def split: option.splits)

text \<open>
  Claim C6. \<^verbatim>\<open>send\<close> never throws. When the manager's transport is missing or not open,
  \<^verbatim>\<open>send(message)\<close> does exactly what a call of the retry scheduler does, whatever the
  message is: nothing is transmitted, and the state that results does not depend on the
  message, so nothing of it is kept. When the transport is open, the serialised message is
  transmitted on it and nothing else happens.
\<close>

theorem send_only_when_open:
  "fst (send m w) = None
   \<and> (\<not> ws_is_open w \<longrightarrow>
        send m w = (None, handleReconnect w)
      \<and> filter is_transmit (added w (snd (send m w))) = [])
   \<and> (ws_is_open w \<longrightarrow>
        (\<exists>s. ws w = Some s
           \<and> send (Serializable j) w = (None, w\<lparr>trace := trace w @ [Transmit s j]\<rparr>)))"
  using handleReconnect_transmits_nothing [of w]
  by (cases m)
     (auto simp add: send_def normal_def throw_def try_catch_def emit_def report_def
        ws_is_open_def split: option.splits)

theorem send_only_when_open_witness:
  "\<not> ws_is_open fresh_manager
   \<and> send (Serializable (JObj [(''type'', JStr ''offer'')])) fresh_manager
       = (None, handleReconnect fresh_manager)
   \<and> filter is_transmit (added fresh_manager
        (snd (send (Serializable (JObj [(''type'', JStr ''offer'')])) fresh_manager))) = []
   \<and> ws_is_open open_manager
   \<and> send (Serializable (JObj [(''type'', JStr ''offer'')])) open_manager
       = (None, open_manager\<lparr>trace := trace open_manager
                   @ [Transmit 0 (JObj [(''type'', JStr ''offer'')])]\<rparr>)"
proof -
  have closed: "\<not> ws_is_open fresh_manager"
    by (simp add: sample_defs model_defs Let_def)
  have opened: "ws_is_open open_manager" and cur: "ws open_manager = Some 0"
    by (simp_all add: sample_defs model_defs Let_def)
  from send_only_when_open
         [of "Serializable (JObj [(''type'', JStr ''offer'')])" fresh_manager] closed
       send_only_when_open
         [of "Serializable (JObj [(''type'', JStr ''offer'')])" open_manager
             "JObj [(''type'', JStr ''offer'')]"] opened cur
  show ?thesis by auto
qed

subsection \<open>Dispatch of inbound frames\<close>

text \<open>
  Claim C9. A frame that \<^verbatim>\<open>JSON.parse\<close> rejects: the callback returns normally; the error
  sink, when one was supplied, is called once, with the decode error; and the state after
  is the state before but for that one entry of the trace, so that the transport, the
  retry fields, the timers and the registry are as they were.
\<close>

theorem decode_error_reported_once:
  "ws_onmessage (NotJSON s) w =
     (None, if onError w then w\<lparr>trace := trace w @ [ErrorSink SyntaxError]\<rparr> else w)"
  by (simp add: ws_onmessage_def onmessage_try_def try_catch_def throw_def normal_def
      report_def emit_def)

text \<open>
  Claim C10. A frame whose \<^verbatim>\<open>error\<close> property is not truthy and for whose tag a handler is
  registered that throws on it: the handler is called, its exception is caught in the
  callback and handed to the error sink (when one was supplied), the callback returns
  normally, and nothing but the trace has changed.
\<close>

theorem handler_exception_contained:
  assumes "get_prop m ''error'' = Inr err" and "\<not> truthy err"
    and "get_prop m ''type'' = Inr tag"
    and "lookup_handler w tag = Some (Handler i f)" and "f m = Some e"
  shows "ws_onmessage (JSONText m) w =
     (None, if onError w then w\<lparr>trace := trace w @ [Invoked i m, ErrorSink e]\<rparr>
            else w\<lparr>trace := trace w @ [Invoked i m]\<rparr>)"
  using assms
  by (simp add: ws_onmessage_def onmessage_try_def try_catch_def throw_def normal_def
      report_def emit_def call_handler_def)

theorem handler_exception_contained_witness:
  "ws_onmessage (JSONText (JObj [(''type'', JStr ''chat''), (''text'', JStr ''hi'')]))
     (run fresh_manager
        [SockOpen 0, CallOnMessage ''chat'' (Handler 7 (\<lambda>p. Some (Thrown ''boom'')))]) =
   (None, (run fresh_manager
        [SockOpen 0, CallOnMessage ''chat'' (Handler 7 (\<lambda>p. Some (Thrown ''boom'')))])
      \<lparr>trace := trace (run fresh_manager
        [SockOpen 0, CallOnMessage ''chat'' (Handler 7 (\<lambda>p. Some (Thrown ''boom'')))])
         @ [Invoked 7 (JObj [(''type'', JStr ''chat''), (''text'', JStr ''hi'')]),
            ErrorSink (Thrown ''boom'')]\<rparr>)"
  using handler_exception_contained
    [of "JObj [(''type'', JStr ''chat''), (''text'', JStr ''hi'')]" None "Some (JStr ''chat'')"
        "run fresh_manager
           [SockOpen 0, CallOnMessage ''chat'' (Handler 7 (\<lambda>p. Some (Thrown ''boom'')))]"
        7 "\<lambda>p. Some (Thrown ''boom'')" "Thrown ''boom''"]
  by (simp add: sample_defs model_defs Let_def)

text \<open>
  Claim C7, as amended. A parsed frame whose \<^verbatim>\<open>error\<close> property is truthy (a non-empty
  string, a non-zero number, \<^verbatim>\<open>true\<close>, an array or an object): the error sink, when one was
  supplied, is called once with that error; no handler is called, whatever is registered;
  the callback returns there, and nothing but the trace has changed.
\<close>

theorem error_field_priority:
  assumes "get_prop m ''error'' = Inr (Some v)" and "truthy (Some v)"
  shows "ws_onmessage (JSONText m) w =
     (None, if onError w then w\<lparr>trace := trace w @ [ErrorSink (ServerError v)]\<rparr> else w)"
  using assms
  by (simp add: ws_onmessage_def onmessage_try_def try_catch_def throw_def normal_def
      report_def emit_def)

theorem error_field_priority_witness:
  "ws_onmessage (JSONText (JObj [(''type'', JStr ''chat''), (''error'', JStr ''boom'')]))
     chat_manager =
   (None, chat_manager\<lparr>trace := trace chat_manager @ [ErrorSink (ServerError (JStr ''boom''))]\<rparr>)"
proof -
  have sink: "onError chat_manager"
    by (simp add: sample_defs model_defs Let_def)
  from error_field_priority
         [of "JObj [(''type'', JStr ''chat''), (''error'', JStr ''boom'')]" "JStr ''boom''"
             chat_manager] sink
  show ?thesis by simp
qed

text \<open>
  Claim C7 as stated fails on a frame that carries an \<^verbatim>\<open>error\<close> field holding the empty
  string: with a handler registered for \<^verbatim>\<open>chat\<close>, the frame
  \<^verbatim>\<open>{"type":"chat","error":""}\<close> is handed to that handler and the error sink is not
  called.
\<close>

theorem empty_error_field_reaches_handler:
  "map_of [(''type'', JStr ''chat''), (''error'', JStr '''')] ''error'' = Some (JStr '''')
   \<and> ws_onmessage (JSONText (JObj [(''type'', JStr ''chat''), (''error'', JStr '''')]))
       chat_manager =
     (None, chat_manager\<lparr>trace := trace chat_manager
        @ [Invoked 7 (JObj [(''type'', JStr ''chat''), (''error'', JStr '''')])]\<rparr>)"
  by (simp add: sample_defs model_defs Let_def)

text \<open>
  Claim C8, as amended. A parsed frame other than \<^verbatim>\<open>null\<close> whose \<^verbatim>\<open>error\<close> property is missing (or
  not truthy). If no handler is registered for its \<^verbatim>\<open>type\<close>, the callback returns with the
  state untouched: no handler is called and nothing reaches the error sink. If a handler
  is registered, the callback calls that handler once, with the whole payload, calls no
  other handler and returns normally; when the handler returns, that call is all that has
  happened. \<^verbatim>\<open>onMessage(type, handler)\<close> makes \<open>handler\<close> the handler of \<open>type\<close>, replacing
  the one there was, and leaves the handlers of the other tags alone.
\<close>

theorem dispatch_by_type:
  assumes "get_prop m ''error'' = Inr err" and "\<not> truthy err"
    and "get_prop m ''type'' = Inr tag"
  shows "(case lookup_handler w tag of
            None \<Rightarrow> ws_onmessage (JSONText m) w = (None, w)
          | Some (Handler i f) \<Rightarrow>
              fst (ws_onmessage (JSONText m) w) = None
            \<and> filter is_invoked (added w (snd (ws_onmessage (JSONText m) w))) = [Invoked i m]
            \<and> (f m = None \<longrightarrow>
                 ws_onmessage (JSONText m) w = (None, w\<lparr>trace := trace w @ [Invoked i m]\<rparr>)))
       \<and> onMessage t h w = (None, w\<lparr>messageHandlers := (messageHandlers w)(t \<mapsto> h)\<rparr>)
       \<and> lookup_handler (snd (onMessage t h w)) (Some (JStr t)) = Some h
       \<and> (\<forall>t'. t' \<noteq> t \<longrightarrow> lookup_handler (snd (onMessage t h w)) (Some (JStr t'))
                          = lookup_handler w (Some (JStr t')))"
  using assms
  by (auto simp add: ws_onmessage_def onmessage_try_def try_catch_def throw_def normal_def
      report_def emit_def call_handler_def added_def onMessage_def lookup_handler_def
      split: option.splits handler.splits)

theorem dispatch_by_type_witness:
  "ws_onmessage (JSONText (JObj [(''type'', JStr ''chat''), (''text'', JStr ''hi'')]))
     chat_manager =
   (None, chat_manager\<lparr>trace := trace chat_manager
      @ [Invoked 7 (JObj [(''type'', JStr ''chat''), (''text'', JStr ''hi'')])]\<rparr>)
   \<and> ws_onmessage (JSONText (JObj [(''type'', JStr ''unknown'')])) chat_manager
       = (None, chat_manager)
   \<and> lookup_handler (snd (onMessage ''chat'' (Handler 8 (\<lambda>p. None)) chat_manager))
       (Some (JStr ''chat'')) = Some (Handler 8 (\<lambda>p. None))"
proof -
  have reg: "lookup_handler chat_manager (Some (JStr ''chat'')) = Some (Handler 7 (\<lambda>p. None))"
    and unreg: "lookup_handler chat_manager (Some (JStr ''unknown'')) = None"
    by (simp_all add: sample_defs model_defs Let_def)
  from dispatch_by_type
         [of "JObj [(''type'', JStr ''chat''), (''text'', JStr ''hi'')]" None
             "Some (JStr ''chat'')" chat_manager "''chat''" "Handler 8 (\<lambda>p. None)"]
       dispatch_by_type
         [of "JObj [(''type'', JStr ''unknown'')]" None
             "Some (JStr ''unknown'')" chat_manager "''chat''" "Handler 8 (\<lambda>p. None)"]
       reg unreg
  show ?thesis by simp
qed

text \<open>
  Claim C8 as stated fails on the frame \<^verbatim>\<open>null\<close>. It parses, it has no \<^verbatim>\<open>error\<close> field and
  no \<^verbatim>\<open>type\<close>, and no handler is called for it; but reading \<^verbatim>\<open>message.error\<close> throws, and
  the callback hands that error to the error sink.
\<close>

theorem null_frame_is_reported:
  "JSON_parse (JSONText JNull) = Inr JNull
   \<and> get_prop JNull ''error'' = Inl TypeError
   \<and> ws_onmessage (JSONText JNull) chat_manager =
       (None, chat_manager\<lparr>trace := trace chat_manager @ [ErrorSink TypeError]\<rparr>)"
  by (simp add: sample_defs model_defs Let_def)

subsection \<open>Teardown\<close>

lemma close_fields:
  "fst (close w) = None"
  "reconnectTimer (snd (close w)) = None"
  "pingInterval (snd (close w)) = None"
  "ws (snd (close w)) = None"
  "isConnected (snd (close w)) = False"
  "messageHandlers (snd (close w)) = Map.empty"
  by (simp_all add: close_def normal_def Let_def split: option.splits)

lemma close_timers:
  "timers (snd (close w)) =
     filter (\<lambda>x. Some (fst x) \<noteq> reconnectTimer w \<and> Some (fst x) \<noteq> pingInterval w) (timers w)"
  by (auto simp add: close_def normal_def Let_def split: option.splits intro: filter_cong)

lemma close_settled:
  assumes "reconnectTimer w = None" "pingInterval w = None" "ws w = None"
    "isConnected w = False" "messageHandlers w = Map.empty"
  shows "close w = (None, w)"
  using assms by (cases w) (simp add: close_def normal_def)

lemma close_twice: "close (snd (close w)) = (None, snd (close w))"
  by (rule close_settled) (rule close_fields)+

lemma close_held:
  assumes "ws w = Some s"
  shows "retryCount (snd (close w)) = maxRetries w"
    and "filter is_transport_close (added w (snd (close w))) =
           (if ws_is_open w then [TransportClose s (Some 1000)] else [])"
    and "retired (snd (close w))"
  using assms
  by (simp_all add: close_def normal_def ws_is_open_def
      added_def retired_def Let_def split: option.splits)

lemma late_step:
  assumes "retired w" and "late_close_or_error ev"
  shows "retired (step w ev) \<and> (\<exists>xs. trace (step w ev) = trace w @ xs \<and> filter arms xs = [])"
  using assms
  by (cases ev)
     (auto simp add: retired_def step_def deliver_def settle_def ws_onclose_def ws_onerror_def
        handleReconnect_def normal_def Let_def split: option.splits)

lemma late_run:
  assumes "retired w" and "list_all late_close_or_error evs"
  shows "retired (run w evs) \<and> (\<exists>xs. trace (run w evs) = trace w @ xs \<and> filter arms xs = [])"
  using assms
proof (induction evs arbitrary: w)
  case Nil
  then show ?case by (simp add: run_def)
next
  case (Cons ev evs)
  from Cons.prems late_step [of w ev]
  obtain xs where r: "retired (step w ev)" and t: "trace (step w ev) = trace w @ xs"
    and a: "filter arms xs = []"
    by auto
  from Cons.IH [OF r] Cons.prems
  obtain ys where r': "retired (run (step w ev) evs)"
    and t': "trace (run (step w ev) evs) = trace (step w ev) @ ys" and a': "filter arms ys = []"
    by auto
  have "run w (ev # evs) = run (step w ev) evs" by (simp add: run_def)
  with r' t t' a a' show ?case by simp
qed

text \<open>
  What \<^verbatim>\<open>close()\<close> does in every state. It returns normally, forgets the
  reconnect timer and the heartbeat interval after cancelling them, drops the transport,
  marks the manager disconnected and empties the registry; the timers still pending are
  the ones that were pending, without those two. A second \<^verbatim>\<open>close()\<close> changes nothing and
  calls nothing. If the manager held a transport when \<^verbatim>\<open>close()\<close> was called, the attempt
  count is set to its limit; that transport is closed, with code 1000, exactly when it was
  open (a transport that is still connecting or already closing is dropped without being
  closed); and a run of events that are all close and error events of transports,
  arriving right after the call, arms no timer and opens no transport.
\<close>

theorem close_teardown:
  "fst (close w) = None
   \<and> reconnectTimer (snd (close w)) = None \<and> pingInterval (snd (close w)) = None
   \<and> ws (snd (close w)) = None \<and> isConnected (snd (close w)) = False
   \<and> messageHandlers (snd (close w)) = Map.empty
   \<and> timers (snd (close w)) =
       filter (\<lambda>x. Some (fst x) \<noteq> reconnectTimer w \<and> Some (fst x) \<noteq> pingInterval w) (timers w)
   \<and> close (snd (close w)) = (None, snd (close w))
   \<and> (\<forall>s. ws w = Some s \<longrightarrow>
          retryCount (snd (close w)) = maxRetries w
        \<and> filter is_transport_close (added w (snd (close w))) =
            (if ws_is_open w then [TransportClose s (Some 1000)] else [])
        \<and> (\<forall>evs. list_all late_close_or_error evs \<longrightarrow>
              filter arms (added (snd (close w)) (run (snd (close w)) evs)) = []))"
proof -
  have "filter arms (added (snd (close w)) (run (snd (close w)) evs)) = []"
    if "ws w = Some s" and "list_all late_close_or_error evs" for s evs
    using late_run [OF close_held(3) [OF that(1)] that(2)] by (auto simp add: added_def)
  then show ?thesis
    using close_fields [of w] close_timers [of w] close_twice [of w] close_held(1,2) [of w]
    by simp
qed

theorem close_teardown_witness:
  "ws open_manager = Some 0
   \<and> retryCount (snd (close open_manager)) = 3
   \<and> filter is_transport_close (added open_manager (snd (close open_manager)))
       = [TransportClose 0 (Some 1000)]
   \<and> list_all late_close_or_error [SockError 0, SockClose 0]
   \<and> filter arms (added (snd (close open_manager))
        (run (snd (close open_manager)) [SockError 0, SockClose 0])) = []
   \<and> close (snd (close open_manager)) = (None, snd (close open_manager))"
proof -
  have held: "ws open_manager = Some 0" and opened: "ws_is_open open_manager"
    and lim: "maxRetries open_manager = 3"
    by (simp_all add: sample_defs model_defs Let_def)
  have late: "list_all late_close_or_error [SockError 0, SockClose 0]"
    by simp
  from close_teardown [of open_manager] held opened lim late
  show ?thesis by simp
qed

text \<open>
  Claim C2 says that \<^verbatim>\<open>close()\<close> closes the transport from every state and that no close
  event that comes later leads to a reconnect. The code does so when the transport is
  open, as shown above, but not when \<^verbatim>\<open>close()\<close> is called on a manager just constructed,
  whose transport is still connecting: \<^verbatim>\<open>close()\<close> then calls nothing at all, so the
  transport is not closed and stays connecting. When it opens, the open callback sets the
  attempt count back to 0 and arms the heartbeat interval and a reconnect timer; when it
  closes, the close callback arms a reconnect timer again, and when that timer fires a new
  transport is created. Calling \<^verbatim>\<open>close()\<close> a second time after the open does not help:
  no transport is held then, the attempt count stays at 1, and the close event arms a
  reconnect timer all the same.
\<close>

theorem close_leaves_connecting_transport:
  "ws fresh_manager = Some 0
   \<and> map_option readyState (sockets fresh_manager 0) = Some CONNECTING
   \<and> added fresh_manager (snd (close fresh_manager)) = []
   \<and> map_option readyState (sockets (snd (close fresh_manager)) 0) = Some CONNECTING
   \<and> added (run fresh_manager [CallClose]) (run fresh_manager [CallClose, SockOpen 0])
       = [TimerCleared 1, TimerSet 2 Ping 30000, TimerSet 3 Reconnect 1000]
   \<and> retryCount (run fresh_manager [CallClose, SockOpen 0]) = 1
   \<and> added (run fresh_manager [CallClose, SockOpen 0])
            (run fresh_manager [CallClose, SockOpen 0, SockClose 0])
       = [TimerCleared 1, TimerCleared 2, TimerCleared 3, TimerSet 4 Reconnect 2000]
   \<and> added (run fresh_manager [CallClose, SockOpen 0, SockClose 0])
            (run fresh_manager [CallClose, SockOpen 0, SockClose 0, TimerFires 4 True])
       = [SocketCreated 1, TimerSet 5 ConnectionTimeout 5000]
   \<and> retryCount (run fresh_manager [CallClose, SockOpen 0, CallClose]) = 1
   \<and> added (run fresh_manager [CallClose, SockOpen 0, CallClose])
            (run fresh_manager [CallClose, SockOpen 0, CallClose, SockClose 0])
       = [TimerCleared 1, TimerSet 4 Reconnect 2000]"
  by (simp add: sample_defs model_defs Let_def)

subsection \<open>Heartbeat\<close>

lemma setupPing_sel:
  "pingInterval (setupPing w) = Some (next_timer w)"
  "timers (setupPing w) =
     filter (\<lambda>x. Some (fst x) \<noteq> pingInterval w) (timers w) @ [(next_timer w, Ping, 30000)]"
  "trace (setupPing w) =
     trace w @ (case pingInterval w of Some p \<Rightarrow> [TimerCleared p] | None \<Rightarrow> [])
       @ [TimerSet (next_timer w) Ping 30000]"
  by (auto simp add: setupPing_def Let_def split: option.splits intro: filter_cong)








subsection \<open>Timers\<close>

lemma timers_ok_cong:
  assumes "timers w' = timers w" "next_timer w' = next_timer w"
    "reconnectTimer w' = reconnectTimer w"
  shows "timers_ok w' = timers_ok w"
  using assms by (simp add: timers_ok_def)

lemma close_next_timer: "next_timer (snd (close w)) = next_timer w"
  by (simp add: close_def normal_def Let_def split: option.splits)

lemma timers_ok_clearTimer: "timers_ok w \<Longrightarrow> timers_ok (clearTimer t w)"
  by (auto simp add: timers_ok_def list_all_iff distinct_map_filter)

lemma timers_ok_remove:
  "timers_ok w \<Longrightarrow> timers_ok (w\<lparr>timers := filter (\<lambda>x. fst x \<noteq> t) (timers w)\<rparr>)"
  by (auto simp add: timers_ok_def list_all_iff distinct_map_filter)

lemma timers_ok_setTimer:
  "timers_ok w \<Longrightarrow> k \<noteq> Reconnect \<Longrightarrow> timers_ok (setTimer k d w)"
  by (fastforce simp add: timers_ok_def list_all_iff)

lemma handleReconnect_sel:
  "ws (handleReconnect w) = ws w" "messageHandlers (handleReconnect w) = messageHandlers w"
  "isConnected (handleReconnect w) = isConnected w"
  "maxRetries (handleReconnect w) = maxRetries w"
  "pingInterval (handleReconnect w) = pingInterval w"
  "roomId (handleReconnect w) = roomId w" "onError (handleReconnect w) = onError w"
  "sockets (handleReconnect w) = sockets w" "next_socket (handleReconnect w) = next_socket w"
  by (simp_all add: handleReconnect_def Let_def split: option.splits)

lemma handleReconnect_trace:
  "trace (handleReconnect w) =
     trace w @ (case reconnectTimer w of Some t \<Rightarrow> [TimerCleared t] | None \<Rightarrow> [])
       @ (if retryCount w < maxRetries w
          then [TimerSet (next_timer w) Reconnect (retryDelay w)]
          else if onError w then [ErrorSink ReconnectExhausted] else [])"
  by (simp add: handleReconnect_def Let_def split: option.splits)

lemma handleReconnect_timers:
  "timers (handleReconnect w) =
     filter (\<lambda>x. Some (fst x) \<noteq> reconnectTimer w) (timers w)
       @ (if retryCount w < maxRetries w then [(next_timer w, Reconnect, retryDelay w)] else [])"
  by (auto simp add: handleReconnect_def Let_def split: option.splits intro: filter_cong)

lemma handleReconnect_reconnectTimer:
  "reconnectTimer (handleReconnect w) =
     (if retryCount w < maxRetries w then Some (next_timer w) else reconnectTimer w)"
  "next_timer (handleReconnect w) =
     (if retryCount w < maxRetries w then Suc (next_timer w) else next_timer w)"
  by (simp_all add: handleReconnect_def Let_def split: option.splits)

lemma timers_ok_handleReconnect: "timers_ok w \<Longrightarrow> timers_ok (handleReconnect w)"
  by (fastforce simp add: timers_ok_def list_all_iff handleReconnect_timers
      handleReconnect_reconnectTimer distinct_map_filter)

lemma timers_ok_upd [simp]:
  "timers_ok (w\<lparr>ws := a\<rparr>) = timers_ok w"
  "timers_ok (w\<lparr>messageHandlers := b\<rparr>) = timers_ok w"
  "timers_ok (w\<lparr>isConnected := c\<rparr>) = timers_ok w"
  "timers_ok (w\<lparr>retryCount := d\<rparr>) = timers_ok w"
  "timers_ok (w\<lparr>retryDelay := e\<rparr>) = timers_ok w"
  "timers_ok (w\<lparr>pingInterval := f\<rparr>) = timers_ok w"
  "timers_ok (w\<lparr>sockets := g\<rparr>) = timers_ok w"
  "timers_ok (w\<lparr>next_socket := h\<rparr>) = timers_ok w"
  "timers_ok (w\<lparr>trace := i\<rparr>) = timers_ok w"
  "timers_ok (emit x w) = timers_ok w"
  "timers_ok (report err w) = timers_ok w"
  "timers_ok (ws_close s code w) = timers_ok w"
  "timers_ok (set_readyState s r w) = timers_ok w"
  by (simp_all add: timers_ok_def)

lemma timers_ok_settle: "timers_ok (settle c) = timers_ok (snd c)"
  by (simp add: settle_def split: prod.splits option.splits)

lemma timers_ok_setupPing: "timers_ok w \<Longrightarrow> timers_ok (setupPing w)"
  by (simp add: setupPing_def Let_def timers_ok_clearTimer timers_ok_setTimer
      split: option.splits)

lemma timers_ok_send: "timers_ok w \<Longrightarrow> timers_ok (snd (send m w))"
  by (simp add: send_def normal_def throw_def try_catch_def timers_ok_handleReconnect
      split: option.splits sum.splits)

lemma timers_ok_ping_tick: "timers_ok w \<Longrightarrow> timers_ok (snd (ping_tick w))"
  using timers_ok_send [of w "Serializable ping_message"]
  by (auto simp add: ping_tick_def normal_def try_catch_def split: prod.splits option.splits)

lemma timers_ok_connect: "timers_ok w \<Longrightarrow> timers_ok (snd (connect ok w))"
  by (simp add: connect_def connect_try_def normal_def throw_def try_catch_def Let_def
      timers_ok_handleReconnect timers_ok_setTimer split: option.splits)

lemma timers_ok_connection_timeout:
  "timers_ok w \<Longrightarrow> timers_ok (snd (connection_timeout w))"
  by (simp add: connection_timeout_def normal_def timers_ok_handleReconnect
      split: option.splits)

lemma timers_ok_onopen: "timers_ok w \<Longrightarrow> timers_ok (snd (ws_onopen ct w))"
  by (simp add: ws_onopen_def Let_def timers_ok_send timers_ok_setupPing timers_ok_clearTimer)

lemma timers_ok_onclose: "timers_ok w \<Longrightarrow> timers_ok (snd (ws_onclose ct w))"
  by (simp add: ws_onclose_def normal_def Let_def timers_ok_handleReconnect
      timers_ok_clearTimer split: option.splits)

lemma onmessage_sel:
  "timers (snd (ws_onmessage d w)) = timers w"
  "next_timer (snd (ws_onmessage d w)) = next_timer w"
  "reconnectTimer (snd (ws_onmessage d w)) = reconnectTimer w"
  "ws (snd (ws_onmessage d w)) = ws w"
  "sockets (snd (ws_onmessage d w)) = sockets w"
  "roomId (snd (ws_onmessage d w)) = roomId w"
  by (simp_all add: ws_onmessage_def onmessage_try_def call_handler_def normal_def throw_def
      try_catch_def split: option.splits sum.splits handler.splits)

lemma timers_ok_onmessage: "timers_ok w \<Longrightarrow> timers_ok (snd (ws_onmessage d w))"
  by (simp add: timers_ok_cong [OF onmessage_sel(1,2,3)])

lemma timers_ok_close: "timers_ok w \<Longrightarrow> timers_ok (snd (close w))"
  by (auto simp add: timers_ok_def list_all_iff close_timers close_fields distinct_map_filter
      close_next_timer)

lemma timers_ok_reconnect_fired:
  assumes "timers_ok w" and "map_of (timers w) t = Some (Reconnect, d)"
  shows "timers_ok (w\<lparr>timers := filter (\<lambda>x. fst x \<noteq> t) (timers w), reconnectTimer := None\<rparr>)"
proof -
  from assms(2) have "(t, Reconnect, d) \<in> set (timers w)"
    by (rule map_of_SomeD)
  with assms(1) have "reconnectTimer w = Some t"
    by (auto simp add: timers_ok_def list_all_iff)
  with assms(1) show ?thesis
    by (auto simp add: timers_ok_def list_all_iff distinct_map_filter)
qed

lemma timers_ok_fire: "timers_ok w \<Longrightarrow> timers_ok (snd (fire t ok w))"
  by (auto simp add: fire_def normal_def reconnect_fired_def timers_ok_ping_tick
      timers_ok_remove timers_ok_connection_timeout timers_ok_reconnect_fired
      timers_ok_connect split: option.splits timer_kind.splits)

lemma timers_ok_deliver: "timers_ok w \<Longrightarrow> timers_ok (snd (deliver ev w))"
  by (cases ev)
     (simp_all add: deliver_def normal_def ws_onerror_def onMessage_def timers_ok_onopen
        timers_ok_onclose timers_ok_onmessage timers_ok_fire timers_ok_send timers_ok_close
        split: option.splits)

lemma timers_ok_step: "timers_ok w \<Longrightarrow> timers_ok (step w ev)"
  by (simp add: step_def timers_ok_settle timers_ok_deliver)

lemma timers_ok_run: "timers_ok w \<Longrightarrow> timers_ok (run w evs)"
  unfolding run_def
  by (induction evs arbitrary: w) (simp_all add: timers_ok_step)

lemma timers_ok_construct: "timers_ok (construct r sink ok)"
proof -
  have "timers_ok (initial r sink)"
    by (simp add: timers_ok_def initial_def)
  then show ?thesis
    by (simp add: construct_def timers_ok_settle timers_ok_connect)
qed

lemma at_most_one:
  assumes "distinct (map fst ts)" and "\<forall>x\<in>set ts. P x \<longrightarrow> fst x = a"
  shows "length (filter P ts) \<le> 1"
  using assms
proof (induction ts)
  case Nil
  then show ?case by simp
next
  case (Cons y ts)
  show ?case
  proof (cases "P y")
    case True
    with Cons.prems have y: "fst y = a" by simp
    from Cons.prems(1) have fresh: "fst y \<notin> fst ` set ts" by simp
    have "\<not> P x" if "x \<in> set ts" for x
    proof
      assume "P x"
      with that Cons.prems(2) have "fst x = a" by simp
      with y that fresh show False by (metis imageI)
    qed
    then have "filter P ts = []" by (simp add: filter_empty_conv)
    with True show ?thesis by simp
  next
    case False
    with Cons show ?thesis by simp
  qed
qed

lemma timers_ok_single:
  assumes "timers_ok w"
  shows "length (filter is_reconnect (timers w)) \<le> 1"
proof (cases "reconnectTimer w")
  case None
  with assms have "\<forall>x\<in>set (timers w). \<not> is_reconnect x"
    by (simp add: timers_ok_def list_all_iff)
  then have "filter is_reconnect (timers w) = []" by (simp add: filter_empty_conv)
  then show ?thesis by simp
next
  case (Some t)
  with assms have "distinct (map fst (timers w))"
    and "\<forall>x\<in>set (timers w). is_reconnect x \<longrightarrow> fst x = t"
    by (auto simp add: timers_ok_def list_all_iff)
  then show ?thesis by (rule at_most_one)
qed

lemma timers_ok_cancelled:
  assumes "timers_ok w" and "x \<in> set (timers w)" and "is_reconnect x"
  shows "x \<notin> set (timers (handleReconnect w))"
proof -
  from assms have "reconnectTimer w = Some (fst x)" and "fst x < next_timer w"
    by (auto simp add: timers_ok_def list_all_iff)
  then show ?thesis
    by (auto simp add: handleReconnect_timers)
qed

text \<open>
  Claim C4. In every state that a manager can reach from its construction, whatever the
  events, at most one reconnect timer is pending. A call of the retry scheduler first
  cancels the reconnect timer on record and only then arms a new one or reports
  exhaustion; so in every such state a reconnect timer that is pending when the scheduler
  is called is no longer pending when it returns.
\<close>

theorem single_reconnect_timer:
  "length (filter is_reconnect (timers (run (construct r sink ok) evs))) \<le> 1
   \<and> added w (handleReconnect w) =
       (case reconnectTimer w of Some t \<Rightarrow> [TimerCleared t] | None \<Rightarrow> [])
       @ (if retryCount w < maxRetries w
          then [TimerSet (next_timer w) Reconnect (retryDelay w)]
          else if onError w then [ErrorSink ReconnectExhausted] else [])
   \<and> (\<forall>x\<in>set (timers (run (construct r sink ok) evs)).
         is_reconnect x \<longrightarrow>
         x \<notin> set (timers (handleReconnect (run (construct r sink ok) evs))))"
proof -
  have ok: "timers_ok (run (construct r sink ok) evs)"
    by (rule timers_ok_run) (rule timers_ok_construct)
  show ?thesis
    using timers_ok_single [OF ok] timers_ok_cancelled [OF ok]
    by (auto simp add: added_def handleReconnect_trace)
qed

theorem single_reconnect_timer_witness:
  "(2, Reconnect, 1000) \<in> set (timers (run fresh_manager [SockClose 0]))
   \<and> is_reconnect (2, Reconnect, 1000)
   \<and> (2, Reconnect, 1000) \<notin> set (timers (handleReconnect (run fresh_manager [SockClose 0])))
   \<and> added (run fresh_manager [SockClose 0]) (handleReconnect (run fresh_manager [SockClose 0]))
       = [TimerCleared 2, TimerSet 3 Reconnect 2000]"
proof -
  have pending: "(2, Reconnect, 1000) \<in> set (timers (run fresh_manager [SockClose 0]))"
    and fields: "reconnectTimer (run fresh_manager [SockClose 0]) = Some 2"
      "retryCount (run fresh_manager [SockClose 0]) = 1"
      "maxRetries (run fresh_manager [SockClose 0]) = 3"
      "next_timer (run fresh_manager [SockClose 0]) = 3"
      "retryDelay (run fresh_manager [SockClose 0]) = 2000"
    by (simp_all add: sample_defs model_defs Let_def)
  from single_reconnect_timer
         [of "''room''" True True "[SockClose 0]" "run fresh_manager [SockClose 0]"]
       pending fields
  show ?thesis by (auto simp add: fresh_manager_def)
qed

subsection \<open>The trace only grows\<close>

lemma ext_handleReconnect: "prefix xs (trace w) \<Longrightarrow> prefix xs (trace (handleReconnect w))"
  by (simp add: handleReconnect_trace)

lemma ext_setupPing: "prefix xs (trace w) \<Longrightarrow> prefix xs (trace (setupPing w))"
  by (simp add: setupPing_sel)

lemma ext_send: "prefix xs (trace w) \<Longrightarrow> prefix xs (trace (snd (send m w)))"
  by (simp add: send_def normal_def throw_def try_catch_def ext_handleReconnect
      split: option.splits sum.splits)

lemma ext_ping_tick: "prefix xs (trace w) \<Longrightarrow> prefix xs (trace (snd (ping_tick w)))"
  using ext_send [of xs w "Serializable ping_message"]
  by (auto simp add: ping_tick_def normal_def try_catch_def split: prod.splits option.splits)

lemma ext_connect: "prefix xs (trace w) \<Longrightarrow> prefix xs (trace (snd (connect ok w)))"
  by (simp add: connect_def connect_try_def normal_def throw_def try_catch_def Let_def
      ext_handleReconnect split: option.splits)

lemma ext_connection_timeout:
  "prefix xs (trace w) \<Longrightarrow> prefix xs (trace (snd (connection_timeout w)))"
  by (simp add: connection_timeout_def normal_def ext_handleReconnect split: option.splits)

lemma ext_onopen: "prefix xs (trace w) \<Longrightarrow> prefix xs (trace (snd (ws_onopen ct w)))"
  by (simp add: ws_onopen_def Let_def ext_send ext_setupPing)

lemma ext_onclose: "prefix xs (trace w) \<Longrightarrow> prefix xs (trace (snd (ws_onclose ct w)))"
  by (simp add: ws_onclose_def normal_def Let_def ext_handleReconnect split: option.splits)

lemma ext_onmessage: "prefix xs (trace w) \<Longrightarrow> prefix xs (trace (snd (ws_onmessage d w)))"
  by (simp add: ws_onmessage_def onmessage_try_def call_handler_def normal_def throw_def
      try_catch_def split: option.splits sum.splits handler.splits)

lemma ext_close: "prefix xs (trace w) \<Longrightarrow> prefix xs (trace (snd (close w)))"
  by (simp add: close_def normal_def Let_def split: option.splits)

lemma ext_fire: "prefix xs (trace w) \<Longrightarrow> prefix xs (trace (snd (fire t ok w)))"
  by (simp add: fire_def normal_def reconnect_fired_def ext_ping_tick ext_connection_timeout
      ext_connect split: option.splits timer_kind.splits)

lemma ext_deliver: "prefix xs (trace w) \<Longrightarrow> prefix xs (trace (snd (deliver ev w)))"
  by (cases ev)
     (simp_all add: deliver_def normal_def ws_onerror_def onMessage_def ext_onopen ext_onclose
        ext_onmessage ext_fire ext_send ext_close split: option.splits)

lemma ext_step: "prefix xs (trace w) \<Longrightarrow> prefix xs (trace (step w ev))"
  using ext_deliver [of xs w ev]
  by (auto simp add: step_def settle_def split: prod.splits option.splits)

lemma ext_run: "prefix xs (trace w) \<Longrightarrow> prefix xs (trace (run w evs))"
  unfolding run_def
  by (induction evs arbitrary: w) (simp_all add: ext_step)

subsection \<open>The transport that is connecting\<close>

lemma readyState_of_upd [simp]:
  "readyState_of (w\<lparr>ws := z\<rparr>) = readyState_of w"
  "readyState_of (w\<lparr>messageHandlers := b\<rparr>) = readyState_of w"
  "readyState_of (w\<lparr>isConnected := c\<rparr>) = readyState_of w"
  "readyState_of (w\<lparr>reconnectTimer := a\<rparr>) = readyState_of w"
  "readyState_of (w\<lparr>retryCount := d\<rparr>) = readyState_of w"
  "readyState_of (w\<lparr>retryDelay := e\<rparr>) = readyState_of w"
  "readyState_of (w\<lparr>pingInterval := f\<rparr>) = readyState_of w"
  "readyState_of (w\<lparr>next_socket := j\<rparr>) = readyState_of w"
  "readyState_of (w\<lparr>timers := g\<rparr>) = readyState_of w"
  "readyState_of (w\<lparr>next_timer := h\<rparr>) = readyState_of w"
  "readyState_of (w\<lparr>trace := i\<rparr>) = readyState_of w"
  "readyState_of (emit x w) = readyState_of w"
  "readyState_of (report err w) = readyState_of w"
  "readyState_of (clearTimer t w) = readyState_of w"
  "readyState_of (setTimer k n w) = readyState_of w"
  "readyState_of (handleReconnect w) = readyState_of w"
  by (simp_all add: fun_eq_iff readyState_of_def handleReconnect_sel)

lemma readyState_of_ws_close:
  "readyState_of (ws_close s c w) s' =
     (if s' = s \<and> (readyState_of w s = Some CONNECTING \<or> readyState_of w s = Some OPEN)
      then Some CLOSING else readyState_of w s')"
  by (simp add: readyState_of_def ws_close_def emit_def split: option.splits)

lemma readyState_of_set_readyState:
  "readyState_of (set_readyState s x w) s' =
     (if s' = s \<and> readyState_of w s \<noteq> None then Some x else readyState_of w s')"
  by (simp add: readyState_of_def set_readyState_def split: option.splits)

lemma readyState_of_created:
  "readyState_of (w\<lparr>sockets := (sockets w)(s \<mapsto> k)\<rparr>) s' =
     (if s' = s then Some (readyState k) else readyState_of w s')"
  by (simp add: readyState_of_def)

lemma current_only_cong:
  assumes "readyState_of w' = readyState_of w" "ws w' = ws w" "roomId w' = roomId w"
  shows "current_only r w' = current_only r w"
  using assms by (simp add: current_only_def)

lemma current_only_upd [simp]:
  "current_only r (w\<lparr>messageHandlers := b\<rparr>) = current_only r w"
  "current_only r (w\<lparr>isConnected := c\<rparr>) = current_only r w"
  "current_only r (w\<lparr>reconnectTimer := a\<rparr>) = current_only r w"
  "current_only r (w\<lparr>retryCount := d\<rparr>) = current_only r w"
  "current_only r (w\<lparr>retryDelay := e\<rparr>) = current_only r w"
  "current_only r (w\<lparr>pingInterval := f\<rparr>) = current_only r w"
  "current_only r (w\<lparr>next_socket := j\<rparr>) = current_only r w"
  "current_only r (w\<lparr>timers := g\<rparr>) = current_only r w"
  "current_only r (w\<lparr>next_timer := h\<rparr>) = current_only r w"
  "current_only r (w\<lparr>trace := i\<rparr>) = current_only r w"
  "current_only r (emit x w) = current_only r w"
  "current_only r (report err w) = current_only r w"
  "current_only r (clearTimer t w) = current_only r w"
  "current_only r (setTimer k n w) = current_only r w"
  "current_only r (handleReconnect w) = current_only r w"
  by (simp_all add: current_only_def handleReconnect_sel)

lemma current_only_settle: "current_only r (settle c) = current_only r (snd c)"
  by (simp add: settle_def split: prod.splits option.splits)

lemma current_only_setupPing [simp]: "current_only r (setupPing w) = current_only r w"
  by (simp add: setupPing_def Let_def split: option.splits)

lemma current_only_send [simp]: "current_only r (snd (send m w)) = current_only r w"
  by (simp add: send_def normal_def throw_def try_catch_def split: option.splits sum.splits)

lemma ping_tick_snd:
  "snd (ping_tick w) = (if ws_is_open w then snd (send (Serializable ping_message) w) else w)"
  by (simp add: ping_tick_def normal_def try_catch_def split: prod.splits option.splits)

lemma current_only_ping_tick [simp]: "current_only r (snd (ping_tick w)) = current_only r w"
  by (simp add: ping_tick_snd)

lemma current_only_onmessage [simp]:
  "current_only r (snd (ws_onmessage d w)) = current_only r w"
  by (rule current_only_cong) (simp_all add: onmessage_sel fun_eq_iff readyState_of_def)

lemma current_only_ws_close:
  "current_only r w \<Longrightarrow> current_only r (ws_close s c w)"
  by (simp add: current_only_def readyState_of_ws_close)

lemma current_only_set_readyState:
  "current_only r w \<Longrightarrow> x \<noteq> CONNECTING \<Longrightarrow> current_only r (set_readyState s x w)"
  by (simp add: current_only_def readyState_of_set_readyState)

lemma current_only_dropped:
  assumes "current_only r w" and "ws w = Some s"
  shows "current_only r ((ws_close s c w)\<lparr>ws := a\<rparr>)"
    and "readyState_of ((ws_close s c w)\<lparr>ws := a\<rparr>) s' \<noteq> Some CONNECTING"
  using assms
  by (auto simp add: current_only_def readyState_of_ws_close)

lemma current_only_connect:
  assumes inv: "current_only r w"
  shows "current_only r (snd (connect ok w))"
proof (cases "ws_is_open w")
  case True
  with inv show ?thesis
    by (simp add: connect_def connect_try_def try_catch_def normal_def)
next
  case False
  define w1 where "w1 = (case ws w of Some s \<Rightarrow> (ws_close s None w)\<lparr>ws := None\<rparr> | None \<Rightarrow> w)"
  have c1: "current_only r w1"
    using inv by (simp add: w1_def current_only_dropped split: option.splits)
  have n1: "readyState_of w1 s' \<noteq> Some CONNECTING" for s'
    using inv
    by (auto simp add: w1_def current_only_def readyState_of_ws_close
        split: option.splits if_splits)
  show ?thesis
  proof (cases ok)
    case False
    with \<open>\<not> ws_is_open w\<close>
    have "snd (connect ok w) = handleReconnect (report SetupError w1)"
      by (simp add: connect_def connect_try_def try_catch_def normal_def throw_def w1_def)
    with c1 show ?thesis by simp
  next
    case True
    with \<open>\<not> ws_is_open w\<close>
    have "ws (snd (connect ok w)) = Some (next_socket w1)"
      and "roomId (snd (connect ok w)) = roomId w1"
      and "readyState_of (snd (connect ok w)) s' =
             (if s' = next_socket w1 then Some CONNECTING else readyState_of w1 s')" for s'
      by (simp_all add: connect_def connect_try_def try_catch_def normal_def throw_def
          w1_def [symmetric] Let_def readyState_of_def)
    with c1 n1 show ?thesis
      by (simp add: current_only_def)
  qed
qed

lemma current_only_connection_timeout:
  "current_only r w \<Longrightarrow> current_only r (snd (connection_timeout w))"
  by (simp add: connection_timeout_def normal_def current_only_ws_close split: option.splits)

lemma current_only_onopen [simp]: "current_only r (snd (ws_onopen ct w)) = current_only r w"
  by (simp add: ws_onopen_def Let_def)

lemma current_only_onclose [simp]: "current_only r (snd (ws_onclose ct w)) = current_only r w"
  by (simp add: ws_onclose_def normal_def Let_def split: option.splits)

lemma current_only_fire: "current_only r w \<Longrightarrow> current_only r (snd (fire t ok w))"
  by (simp add: fire_def normal_def reconnect_fired_def current_only_connection_timeout
      current_only_connect split: option.splits timer_kind.splits)

lemma current_only_deliver:
  "current_only r w \<Longrightarrow> ev \<noteq> CallClose \<Longrightarrow> current_only r (snd (deliver ev w))"
  by (cases ev)
     (simp_all add: deliver_def normal_def ws_onerror_def onMessage_def current_only_fire
        current_only_set_readyState split: option.splits)

lemma current_only_run:
  "current_only r w \<Longrightarrow> CallClose \<notin> set evs \<Longrightarrow> current_only r (run w evs)"
  unfolding run_def
  by (induction evs arbitrary: w)
     (auto simp add: step_def current_only_settle current_only_deliver)

lemma current_only_construct: "current_only r (construct r sink ok)"
proof -
  have "current_only r (initial r sink)"
    by (simp add: current_only_def readyState_of_def initial_def)
  then show ?thesis
    by (simp add: construct_def current_only_settle current_only_connect)
qed

lemma onopen_current:
  assumes "sockets w s = Some k" and "readyState k = CONNECTING" and "ws w = Some s"
  shows "trace (step w (SockOpen s)) =
           trace w @ TimerCleared (connectionTimeout k)
             # (case pingInterval w of Some p \<Rightarrow> [TimerCleared p] | None \<Rightarrow> [])
             @ [TimerSet (next_timer w) Ping 30000, Transmit s (join_message (roomId w))]"
    and "retryCount (step w (SockOpen s)) = 0"
    and "retryDelay (step w (SockOpen s)) = 1000"
  using assms
  by (simp_all add: step_def deliver_def settle_def ws_onopen_def send_def setupPing_def
      ws_is_open_def set_readyState_def try_catch_def normal_def Let_def split: option.splits)

text \<open>
  Claim C3, as amended. Take any history of a manager since its construction in which \<^verbatim>\<open>close()\<close> was
  not called: transports may have opened, started to close, closed, reported errors and
  delivered frames, timers may have fired, the consumer may have sent and registered.
  When a transport that is connecting then opens, the open callback cancels the
  establishment timeout and the old heartbeat interval, arms the heartbeat interval and
  transmits on that transport the frame \<^verbatim>\<open>{"type":"join","roomId":r}\<close>, where \<open>r\<close> is the
  identifier given to the constructor. That frame is the only one the callback transmits,
  it is the first frame transmitted from the open on, whatever happens next, and after
  the callback the attempt count is 0 and the next delay 1000 ms.
\<close>

theorem join_on_open:
  assumes "CallClose \<notin> set evs"
    and "sockets (run (construct r sink ok) evs) s = Some k"
    and "readyState k = CONNECTING"
  shows "(let W = run (construct r sink ok) evs; W' = step W (SockOpen s) in
      added W W' =
        TimerCleared (connectionTimeout k)
          # (case pingInterval W of Some p \<Rightarrow> [TimerCleared p] | None \<Rightarrow> [])
          @ [TimerSet (next_timer W) Ping 30000, Transmit s (join_message r)]
    \<and> filter is_transmit (added W W') = [Transmit s (join_message r)]
    \<and> (\<forall>evs'. \<exists>rest.
          filter is_transmit (added W (run W' evs')) = Transmit s (join_message r) # rest)
    \<and> retryCount W' = 0 \<and> retryDelay W' = 1000)"
proof -
  define W where "W = run (construct r sink ok) evs"
  define W' where "W' = step W (SockOpen s)"
  define E where "E = TimerCleared (connectionTimeout k)
          # (case pingInterval W of Some p \<Rightarrow> [TimerCleared p] | None \<Rightarrow> [])
          @ [TimerSet (next_timer W) Ping 30000, Transmit s (join_message r)]"
  have inv: "current_only r W"
    unfolding W_def using assms(1) by (intro current_only_run current_only_construct)
  from assms(2,3) have "readyState_of W s = Some CONNECTING"
    by (simp add: W_def readyState_of_def)
  with inv have cur: "ws W = Some s" and room: "roomId W = r"
    by (simp_all add: current_only_def)
  from assms(2) have sock: "sockets W s = Some k"
    by (simp add: W_def)
  have tr: "trace W' = trace W @ E" and rc: "retryCount W' = 0" and rd: "retryDelay W' = 1000"
    using onopen_current [OF sock assms(3) cur] room by (simp_all add: W'_def E_def)
  have one: "filter is_transmit E = [Transmit s (join_message r)]"
    by (simp add: E_def split: option.splits)
  have later: "\<exists>rest. filter is_transmit (added W (run W' evs')) = Transmit s (join_message r) # rest"
    for evs'
  proof -
    have "prefix (trace W') (trace (run W' evs'))"
      by (rule ext_run) simp
    then obtain ys where "trace (run W' evs') = trace W' @ ys"
      by (auto simp add: prefix_def)
    with tr have "added W (run W' evs') = E @ ys"
      by (simp add: added_def)
    with one show ?thesis by simp
  qed
  from tr have "added W W' = E" by (simp add: added_def)
  with one later rc rd show ?thesis
    unfolding Let_def W_def [symmetric] W'_def [symmetric] E_def [symmetric] by simp
qed

theorem join_on_open_witness:
  "CallClose \<notin> set [SockClose 0, TimerFires 2 True]
   \<and> map_option readyState (sockets (run fresh_manager [SockClose 0, TimerFires 2 True]) 1)
       = Some CONNECTING
   \<and> retryCount (run fresh_manager [SockClose 0, TimerFires 2 True]) = 1
   \<and> retryDelay (run fresh_manager [SockClose 0, TimerFires 2 True]) = 2000
   \<and> added (run fresh_manager [SockClose 0, TimerFires 2 True])
        (run fresh_manager [SockClose 0, TimerFires 2 True, SockOpen 1])
       = [TimerCleared 3, TimerSet 4 Ping 30000,
          Transmit 1 (JObj [(''type'', JStr ''join''), (''roomId'', JStr ''room'')])]
   \<and> retryCount (run fresh_manager [SockClose 0, TimerFires 2 True, SockOpen 1]) = 0
   \<and> retryDelay (run fresh_manager [SockClose 0, TimerFires 2 True, SockOpen 1]) = 1000"
proof -
  have hist: "CallClose \<notin> set [SockClose 0, TimerFires 2 True]"
    by simp
  have sock: "sockets (run (construct ''room'' True True) [SockClose 0, TimerFires 2 True]) 1
      = Some \<lparr>readyState = CONNECTING, connectionTimeout = 3\<rparr>"
    and before: "retryCount (run fresh_manager [SockClose 0, TimerFires 2 True]) = 1"
      "retryDelay (run fresh_manager [SockClose 0, TimerFires 2 True]) = 2000"
      "pingInterval (run (construct ''room'' True True) [SockClose 0, TimerFires 2 True]) = None"
      "next_timer (run (construct ''room'' True True) [SockClose 0, TimerFires 2 True]) = 4"
    by (simp_all add: sample_defs model_defs Let_def)
  have state: "readyState \<lparr>readyState = CONNECTING, connectionTimeout = 3\<rparr> = CONNECTING"
    by simp
  have unroll: "run fresh_manager [SockClose 0, TimerFires 2 True, SockOpen 1]
      = step (run (construct ''room'' True True) [SockClose 0, TimerFires 2 True]) (SockOpen 1)"
    by (simp add: run_def fresh_manager_def)
  from join_on_open [OF hist sock state] before sock unroll
  show ?thesis
    by (simp add: Let_def join_message_def fresh_manager_def)
qed

text \<open>
  Claim C3 as stated fails in the form it gives to the frame: the frame transmitted when
  the first transport of a manager opens carries the identifier under the key \<^verbatim>\<open>roomId\<close>
  and has no property \<^verbatim>\<open>sessionId\<close>. It also fails for an open that follows a call of
  \<^verbatim>\<open>close()\<close>: closed while its transport was connecting, the manager transmits nothing
  when that transport opens.
\<close>

theorem join_not_as_stated:
  "added fresh_manager (run fresh_manager [SockOpen 0])
     = [TimerCleared 1, TimerSet 2 Ping 30000,
        Transmit 0 (JObj [(''type'', JStr ''join''), (''roomId'', JStr ''room'')])]
   \<and> get_prop (JObj [(''type'', JStr ''join''), (''roomId'', JStr ''room'')]) ''sessionId''
       = Inr None
   \<and> get_prop (JObj [(''type'', JStr ''join''), (''roomId'', JStr ''room'')]) ''roomId''
       = Inr (Some (JStr ''room''))
   \<and> readyState_of (run fresh_manager [CallClose, SockOpen 0]) 0 = Some OPEN
   \<and> filter is_transmit
         (added (run fresh_manager [CallClose]) (run fresh_manager [CallClose, SockOpen 0]))
       = []"
  by (simp add: sample_defs model_defs readyState_of_def Let_def)

subsection \<open>The heartbeat between an open and the next close\<close>

lemma handles_ok_upd [simp]:
  "handles_ok (w\<lparr>ws := a\<rparr>) = handles_ok w"
  "handles_ok (w\<lparr>messageHandlers := b\<rparr>) = handles_ok w"
  "handles_ok (w\<lparr>isConnected := c\<rparr>) = handles_ok w"
  "handles_ok (w\<lparr>retryCount := d\<rparr>) = handles_ok w"
  "handles_ok (w\<lparr>retryDelay := e\<rparr>) = handles_ok w"
  "handles_ok (w\<lparr>pingInterval := f\<rparr>) = handles_ok w"
  "handles_ok (w\<lparr>sockets := g\<rparr>) = handles_ok w"
  "handles_ok (w\<lparr>next_socket := h\<rparr>) = handles_ok w"
  "handles_ok (w\<lparr>trace := i\<rparr>) = handles_ok w"
  "handles_ok (emit x w) = handles_ok w"
  "handles_ok (report err w) = handles_ok w"
  "handles_ok (ws_close s code w) = handles_ok w"
  "handles_ok (set_readyState s r w) = handles_ok w"
  by (simp_all add: handles_ok_def split: option.splits)




















lemma beating_upd [simp]:
  "beating (w\<lparr>ws := a\<rparr>) = beating w"
  "beating (w\<lparr>messageHandlers := b\<rparr>) = beating w"
  "beating (w\<lparr>isConnected := c\<rparr>) = beating w"
  "beating (w\<lparr>reconnectTimer := j\<rparr>) = beating w"
  "beating (w\<lparr>retryCount := d\<rparr>) = beating w"
  "beating (w\<lparr>retryDelay := e\<rparr>) = beating w"
  "beating (w\<lparr>sockets := g\<rparr>) = beating w"
  "beating (w\<lparr>next_socket := h\<rparr>) = beating w"
  "beating (w\<lparr>next_timer := n\<rparr>) = beating w"
  "beating (w\<lparr>trace := i\<rparr>) = beating w"
  "beating (emit x w) = beating w"
  "beating (report err w) = beating w"
  "beating (ws_close s code w) = beating w"
  "beating (set_readyState s r w) = beating w"
  by (simp_all add: beating_def split: option.splits)





















end
